theory Spec2Isabelle
  imports Main
begin

section \<open>JavaScript values\<close>

text \<open>
  The values the poller handles are the results of \<^verbatim>\<open>JSON.parse\<close>, the two fields of
  \<^verbatim>\<open>dynamicNestConfig\<close> and the constants of the program. A number is carried by its
  canonical rendering (what \<^verbatim>\<open>String(n)\<close> gives, so \<^verbatim>\<open>443\<close> is \<open>JNum ''443''\<close> and both
  zeros are \<open>JNum ''0''\<close>): the program never computes with a number, it tests it for
  truthiness, uses it as a property key or copies it. An object lists its own properties
  in enumeration order, with distinct names. A read can also find a value of the engine
  on the prototype chain, a built-in function or a prototype object: \<open>JBuiltin\<close> carries
  what the program can see of it, its \<^verbatim>\<open>name\<close> (when it has one) and the string it turns
  into.
\<close>

datatype jsval =
    Undefined
  | JNull
  | JBool bool
  | JNum string
  | JStr string
  | JArr "jsval list"
  | JObj "(string \<times> jsval) list"
  | JBuiltin "string option" string

datatype exn = TypeError | SyntaxError

text \<open>\<^verbatim>\<open>!v\<close> is \<open>\<not> truthy v\<close>; \<^verbatim>\<open>a || b\<close> is \<open>js_or a b\<close>.\<close>

fun truthy :: "jsval \<Rightarrow> bool" where
  "truthy Undefined = False"
| "truthy JNull = False"
| "truthy (JBool b) = b"
| "truthy (JNum s) = (s \<noteq> ''0'' \<and> s \<noteq> ''NaN'')"
| "truthy (JStr s) = (s \<noteq> [])"
| "truthy (JArr xs) = True"
| "truthy (JObj kvs) = True"
| "truthy (JBuiltin nm r) = True"

definition js_or :: "jsval \<Rightarrow> jsval \<Rightarrow> jsval" where
  "js_or a b = (if truthy a then a else b)"

subsection \<open>String operations of the redirect handler\<close>

fun starts_with :: "string \<Rightarrow> string \<Rightarrow> bool" where
  "starts_with [] s = True"
| "starts_with (p # ps) [] = False"
| "starts_with (p # ps) (c # cs) = (p = c \<and> starts_with ps cs)"

text \<open>\<^verbatim>\<open>s.replace(pat, rep)\<close> with a string pattern: only the first occurrence is replaced.\<close>

fun replace :: "string \<Rightarrow> string \<Rightarrow> string \<Rightarrow> string" where
  "replace pat rep [] = (if pat = [] then rep else [])"
| "replace pat rep (c # cs) =
     (if starts_with pat (c # cs) then rep @ drop (length pat) (c # cs)
      else c # replace pat rep cs)"

text \<open>\<^verbatim>\<open>s.split(sep)\<close> with a one-character separator: never the empty list.\<close>

fun split :: "char \<Rightarrow> string \<Rightarrow> string list" where
  "split sep [] = [[]]"
| "split sep (c # cs) =
     (if c = sep then [] # split sep cs
      else (case split sep cs of [] \<Rightarrow> [[c]] | w # ws \<Rightarrow> (c # w) # ws))"

section \<open>The endpoint cache and one fetch attempt\<close>

definition DEFAULT_NEST_URL :: jsval where
  "DEFAULT_NEST_URL = JStr ''developer-api.nest.com''"

definition DEFAULT_NEST_PORT :: jsval where
  "DEFAULT_NEST_PORT = JNum ''443''"

text \<open>\<^verbatim>\<open>dynamicNestConfig\<close>: each field is \<^verbatim>\<open>null\<close> or a string.\<close>

record config =
  host :: jsval
  port :: jsval

definition initial_config :: config where
  "initial_config = \<lparr>host = JNull, port = JNull\<rparr>"

text \<open>
  The body of a response, as the \<^verbatim>\<open>end\<close> handler sees it: of length zero, a text that
  \<^verbatim>\<open>JSON.parse\<close> turns into a value, or a text that \<^verbatim>\<open>JSON.parse\<close> rejects with a
  \<^verbatim>\<open>SyntaxError\<close>.
\<close>

datatype body = NoBody | Parsed jsval | Unparsable

record response =
  statusCode :: nat
  location :: "string option"
  responseBody :: body

text \<open>What the network answers to one request: a response, or the request's \<^verbatim>\<open>error\<close> event.\<close>

datatype event = Response response | NetError string

datatype settlement = Resolved jsval | Rejected string

text \<open>
  The state the handlers of one attempt work on: the shared cache and the attempt's
  promise, which keeps its first settlement.
\<close>

record hstate =
  cfg :: config
  settled :: "settlement option"

definition resolve :: "jsval \<Rightarrow> hstate \<Rightarrow> hstate" where
  "resolve v s = (case settled s of None \<Rightarrow> s\<lparr>settled := Some (Resolved v)\<rparr> | Some x \<Rightarrow> s)"

definition reject :: "string \<Rightarrow> hstate \<Rightarrow> hstate" where
  "reject m s = (case settled s of None \<Rightarrow> s\<lparr>settled := Some (Rejected m)\<rparr> | Some x \<Rightarrow> s)"

text \<open>
  The branch for status 307. A read of a property of \<^verbatim>\<open>undefined\<close> throws a
  \<^verbatim>\<open>TypeError\<close>: when the header is absent nothing has been assigned yet, when the header
  has no colon after the scheme the host has been assigned and the port has not. The
  exception leaves the handler with the state reached so far.
\<close>

definition on_redirect :: "response \<Rightarrow> hstate \<Rightarrow> (exn \<times> hstate) + hstate" where
  "on_redirect r s =
     (case location r of
        None \<Rightarrow> Inl (TypeError, s)
      | Some l \<Rightarrow>
          (case split CHR '':'' (replace ''https://'' [] l) of
             [] \<Rightarrow> Inl (TypeError, s\<lparr>cfg := (cfg s)\<lparr>host := Undefined\<rparr>\<rparr>)
           | [h] \<Rightarrow> Inl (TypeError, s\<lparr>cfg := (cfg s)\<lparr>host := JStr h\<rparr>\<rparr>)
           | h # p # rest \<Rightarrow>
               Inr (resolve JNull
                 (s\<lparr>cfg := (cfg s)\<lparr>host := JStr h, port := JStr (replace ''/'' [] p)\<rparr>\<rparr>))))"

text \<open>The \<^verbatim>\<open>end\<close> handler: a body of length zero is resolved as the empty string.\<close>

definition on_end :: "body \<Rightarrow> hstate \<Rightarrow> (exn \<times> hstate) + hstate" where
  "on_end b s =
     (case b of
        NoBody \<Rightarrow> Inr (resolve (JStr []) s)
      | Parsed v \<Rightarrow> Inr (resolve v s)
      | Unparsable \<Rightarrow> Inl (SyntaxError, s))"

text \<open>
  The response callback: three independent tests of the status, then the body is read to
  its end, whatever the status was.
\<close>

definition on_response :: "response \<Rightarrow> hstate \<Rightarrow> (exn \<times> hstate) + hstate" where
  "on_response r s =
     (case (if statusCode r = 307 then on_redirect r s else Inr s) of
        Inl e \<Rightarrow> Inl e
      | Inr s1 \<Rightarrow>
          (let s2 = (if statusCode r = 404
                     then resolve JNull (s1\<lparr>cfg := \<lparr>host = JNull, port = JNull\<rparr>\<rparr>)
                     else s1);
               s3 = (if statusCode r = 429 then resolve JNull s2 else s2)
           in on_end (responseBody r) s3))"

definition attempt :: "config \<Rightarrow> event \<Rightarrow> (exn \<times> hstate) + hstate" where
  "attempt c ev =
     (case ev of
        Response r \<Rightarrow> on_response r \<lparr>cfg = c, settled = None\<rparr>
      | NetError m \<Rightarrow> Inr (reject m \<lparr>cfg = c, settled = None\<rparr>))"

section \<open>The resolution loop\<close>

datatype error = TooManyRedirects | TransportError string

text \<open>
  How a call of \<^verbatim>\<open>nest\<close> ends: its promise is fulfilled with the data, it is rejected, an
  exception escapes a handler of the response (nothing catches it), or the request is
  never answered.
\<close>

datatype outcome = Returned jsval | Failed error | Crashed exn | Pending

record run =
  final :: config
  requests :: "(jsval \<times> jsval) list"
  outcome :: outcome

definition issue :: "jsval \<times> jsval \<Rightarrow> run \<Rightarrow> run" where
  "issue rq r = r\<lparr>requests := rq # requests r\<rparr>"

text \<open>The host and port of the request: the arguments, else the cache, else the defaults.\<close>

definition target :: "jsval \<Rightarrow> jsval \<Rightarrow> config \<Rightarrow> jsval \<times> jsval" where
  "target url prt c =
     (if \<not> truthy url then js_or (host c) DEFAULT_NEST_URL else url,
      if \<not> truthy prt then js_or (port c) DEFAULT_NEST_PORT else prt)"

text \<open>
  \<^verbatim>\<open>nest(url, port, redirectCount)\<close> against the answers the network gives to the
  successive requests, each response handled to its end before the next one arrives.
  The run records the cache it leaves and the requests it issued.
\<close>

fun nest :: "jsval \<Rightarrow> jsval \<Rightarrow> nat \<Rightarrow> config \<Rightarrow> event list \<Rightarrow> run" where
  "nest url prt redirectCount c [] =
     (if redirectCount > 10 then \<lparr>final = c, requests = [], outcome = Failed TooManyRedirects\<rparr>
      else \<lparr>final = c, requests = [target url prt c], outcome = Pending\<rparr>)"
| "nest url prt redirectCount c (ev # evs) =
     (if redirectCount > 10 then \<lparr>final = c, requests = [], outcome = Failed TooManyRedirects\<rparr>
      else
        (case attempt c ev of
           Inl (e, s) \<Rightarrow> \<lparr>final = cfg s, requests = [target url prt c], outcome = Crashed e\<rparr>
         | Inr s \<Rightarrow>
             (case settled s of
                None \<Rightarrow> \<lparr>final = cfg s, requests = [target url prt c], outcome = Pending\<rparr>
              | Some (Rejected m) \<Rightarrow>
                  \<lparr>final = cfg s, requests = [target url prt c],
                   outcome = Failed (TransportError m)\<rparr>
              | Some (Resolved v) \<Rightarrow>
                  (if \<not> truthy v
                   then issue (target url prt c) (nest JNull JNull (redirectCount + 1) (cfg s) evs)
                   else \<lparr>final = cfg s, requests = [target url prt c],
                         outcome = Returned v\<rparr>))))"

text \<open>The scheduler's call \<^verbatim>\<open>nest()\<close>: no arguments, the counter starts at 0.\<close>

definition poll :: "config \<Rightarrow> event list \<Rightarrow> run" where
  "poll c evs = nest Undefined Undefined 0 c evs"

text \<open>What an attempt leaves behind, whether its handlers returned or threw.\<close>

definition state_after :: "(exn \<times> hstate) + hstate \<Rightarrow> hstate" where
  "state_after a = (case a of Inl (e, s) \<Rightarrow> s | Inr s \<Rightarrow> s)"

definition thrown :: "(exn \<times> hstate) + hstate \<Rightarrow> exn option" where
  "thrown a = (case a of Inl (e, s) \<Rightarrow> Some e | Inr s \<Rightarrow> None)"

text \<open>
  An attempt yields a retry signal when its handlers run to their end and its promise is
  fulfilled with a falsy value; it delivers \<open>v\<close> when the promise is fulfilled with the
  truthy \<open>v\<close>. Neither depends on the cache the attempt starts from
  (\<open>attempt_settled_any_cache\<close> below).
\<close>

definition retry_signal :: "event \<Rightarrow> bool" where
  "retry_signal ev =
     (case attempt initial_config ev of
        Inl x \<Rightarrow> False
      | Inr s \<Rightarrow> (case settled s of Some (Resolved v) \<Rightarrow> \<not> truthy v | _ \<Rightarrow> False))"

definition delivers :: "event \<Rightarrow> jsval \<Rightarrow> bool" where
  "delivers ev v =
     (truthy v \<and>
      (case attempt initial_config ev of
         Inl x \<Rightarrow> False
       | Inr s \<Rightarrow> settled s = Some (Resolved v)))"

text \<open>The cache holds a redirect target (both fields set) or nothing (both \<^verbatim>\<open>null\<close>).\<close>

definition consistent :: "config \<Rightarrow> bool" where
  "consistent c = ((host c = JNull) = (port c = JNull))"

subsection \<open>Sample responses\<close>

definition redirect_response :: response where
  "redirect_response =
     \<lparr>statusCode = 307, location = Some ''https://alt-host:444/'', responseBody = NoBody\<rparr>"

definition not_found_response :: response where
  "not_found_response =
     \<lparr>statusCode = 404, location = None,
      responseBody = Parsed (JObj [(''error'', JStr ''not found'')])\<rparr>"

definition rate_limited_response :: response where
  "rate_limited_response = \<lparr>statusCode = 429, location = None, responseBody = NoBody\<rparr>"

definition empty_response :: response where
  "empty_response = \<lparr>statusCode = 200, location = None, responseBody = NoBody\<rparr>"

definition data_response :: response where
  "data_response =
     \<lparr>statusCode = 200, location = None,
      responseBody = Parsed (JObj [(''devices'', JObj [])])\<rparr>"

section \<open>The polling callback\<close>

subsection \<open>Property reads\<close>

definition digit :: "nat \<Rightarrow> char" where
  "digit d = (''0123456789'' ! d)"

function show_nat :: "nat \<Rightarrow> string" where
  "show_nat n = (if n < 10 then [digit n] else show_nat (n div 10) @ [digit (n mod 10)])"
  by pat_completeness auto
termination
  by (relation "measure id") auto

declare show_nat.simps [simp del]

definition index_keys :: "nat \<Rightarrow> string list" where
  "index_keys n = map show_nat [0..<n]"

text \<open>
  The enumerable own properties of a value, which \<^verbatim>\<open>Object.keys\<close> lists: those of an
  object, the elements of an array, the characters of a string.
\<close>

fun own_props :: "jsval \<Rightarrow> (string \<times> jsval) list" where
  "own_props (JObj kvs) = kvs"
| "own_props (JArr xs) = zip (index_keys (length xs)) xs"
| "own_props (JStr s) = zip (index_keys (length s)) (map (\<lambda>c. JStr [c]) s)"
| "own_props v = []"

definition Object_keys :: "jsval \<Rightarrow> string list" where
  "Object_keys v = map fst (own_props v)"

text \<open>
  The own properties a read finds: the enumerable ones, the \<^verbatim>\<open>length\<close> of an array or
  a string, the \<^verbatim>\<open>name\<close> of a built-in function.
\<close>

definition own :: "jsval \<Rightarrow> string \<Rightarrow> jsval option" where
  "own v k =
     (case map_of (own_props v) k of
        Some x \<Rightarrow> Some x
      | None \<Rightarrow>
          (case v of
             JArr xs \<Rightarrow> if k = ''length'' then Some (JNum (show_nat (length xs))) else None
           | JStr s \<Rightarrow> if k = ''length'' then Some (JNum (show_nat (length s))) else None
           | JBuiltin (Some n) r \<Rightarrow> if k = ''name'' then Some (JStr n) else None
           | _ \<Rightarrow> None))"

text \<open>
  A read of \<^verbatim>\<open>v.k\<close> or \<^verbatim>\<open>v[k]\<close> that finds no own property goes on along the prototype
  chain. The built-in prototypes belong to the engine, not to the repository, and differ
  between its versions: \<open>inh v k\<close> stands for what the chain of \<open>v\<close> gives for \<open>k\<close>
  (\<^verbatim>\<open>undefined\<close> when it has no such property). Every definition below takes it as a
  parameter, and the theorems hold for all of them. \<open>property\<close> is the value read; on
  \<^verbatim>\<open>undefined\<close> and \<^verbatim>\<open>null\<close> there is no value (\<open>get\<close> raises the error there).
\<close>

type_synonym chain = "jsval \<Rightarrow> string \<Rightarrow> jsval"

definition property :: "chain \<Rightarrow> jsval \<Rightarrow> string \<Rightarrow> jsval" where
  "property inh v k =
     (if v = Undefined \<or> v = JNull then Undefined
      else (case own v k of Some x \<Rightarrow> x | None \<Rightarrow> inh v k))"

text \<open>\<^verbatim>\<open>v.k\<close> and \<^verbatim>\<open>v[k]\<close>: a \<^verbatim>\<open>TypeError\<close> on \<^verbatim>\<open>undefined\<close> and \<^verbatim>\<open>null\<close>.\<close>

definition get :: "chain \<Rightarrow> jsval \<Rightarrow> string \<Rightarrow> exn + jsval" where
  "get inh v k =
     (if v = Undefined \<or> v = JNull then Inl TypeError else Inr (property inh v k))"

definition andthen :: "exn + 'a \<Rightarrow> ('a \<Rightarrow> exn + 'b) \<Rightarrow> exn + 'b" where
  "andthen m f = (case m of Inl e \<Rightarrow> Inl e | Inr x \<Rightarrow> f x)"

fun join :: "string \<Rightarrow> string list \<Rightarrow> string" where
  "join sep [] = []"
| "join sep [s] = s"
| "join sep (s # t # ts) = s @ sep @ join sep (t # ts)"

text \<open>The string a value becomes when it is used as a property key.\<close>

fun to_str :: "jsval \<Rightarrow> string" where
  "to_str Undefined = ''undefined''"
| "to_str JNull = ''null''"
| "to_str (JBool b) = (if b then ''true'' else ''false'')"
| "to_str (JNum s) = s"
| "to_str (JStr s) = s"
| "to_str (JArr xs) =
     join '','' (map (\<lambda>x. if x = Undefined \<or> x = JNull then [] else to_str x) xs)"
| "to_str (JObj kvs) = ''[object Object]''"
| "to_str (JBuiltin nm r) = r"

text \<open>
  \<^verbatim>\<open>v == 'word'\<close> for the words the callback compares with (\<^verbatim>\<open>off\<close>, \<^verbatim>\<open>heat\<close>,
  \<^verbatim>\<open>cool\<close>, \<^verbatim>\<open>heat-cool\<close>, \<^verbatim>\<open>eco\<close>, \<^verbatim>\<open>cooling\<close>, \<^verbatim>\<open>heating\<close>): non-empty, without a
  comma, not a number and not the rendering of a boolean or of an object. A string is
  compared by content; an array is compared through its rendering, which has no comma
  only when it has at most one element; a value of the engine is compared through its
  rendering; any other value differs from such a word.
\<close>

fun eq_word :: "jsval \<Rightarrow> string \<Rightarrow> bool" where
  "eq_word (JStr s) w = (s = w)"
| "eq_word (JArr [x]) w = eq_word x w"
| "eq_word (JBuiltin nm r) w = (r = w)"
| "eq_word v w = False"

subsection \<open>The points written for one device\<close>

record point =
  measurement :: string
  tags :: "(string \<times> jsval) list"
  flds :: "(string \<times> jsval) list"

text \<open>\<^verbatim>\<open>v ? 1 : 0\<close> and \<^verbatim>\<open>v == 'word' ? 1 : 0\<close>.\<close>

definition flag :: "jsval \<Rightarrow> jsval" where
  "flag v = (if truthy v then JNum ''1'' else JNum ''0'')"

definition onehot :: "jsval \<Rightarrow> string \<Rightarrow> jsval" where
  "onehot v w = (if eq_word v w then JNum ''1'' else JNum ''0'')"

text \<open>
  The argument of \<^verbatim>\<open>influxdb.writePoints\<close> for a device and the name of its room, in
  the full variant of the program (the one with the 404 and 429 branches).
\<close>

definition temperature_point :: "chain \<Rightarrow> jsval \<Rightarrow> jsval \<Rightarrow> point" where
  "temperature_point inh device room =
     \<lparr>measurement = ''sensor.temperature.reading'',
      tags = [(''device_id'', property inh device ''device_id''), (''room'', room)],
      flds = [(''ambient'', property inh device ''ambient_temperature_f''),
              (''target_high'', property inh device ''target_temperature_high_f''),
              (''target_low'', property inh device ''target_temperature_low_f''),
              (''target'', property inh device ''target_temperature_f'')]\<rparr>"

definition humidity_point :: "chain \<Rightarrow> jsval \<Rightarrow> jsval \<Rightarrow> point" where
  "humidity_point inh device room =
     \<lparr>measurement = ''sensor.humidity.reading'',
      tags = [(''device_id'', property inh device ''device_id''), (''room'', room)],
      flds = [(''humidity'', property inh device ''humidity'')]\<rparr>"

definition state_point :: "chain \<Rightarrow> jsval \<Rightarrow> jsval \<Rightarrow> point" where
  "state_point inh device room =
     \<lparr>measurement = ''device.state.reading'',
      tags = [(''device_id'', property inh device ''device_id''), (''room'', room),
              (''device_type'', JStr ''nest'')],
      flds = [(''fan'', flag (property inh device ''has_fan'')),
              (''leaf'', flag (property inh device ''has_leaf'')),
              (''mode'', property inh device ''hvac_mode''),
              (''state'', property inh device ''hvac_state''),
              (''online'', flag (property inh device ''is_online'')),
              (''mode_off'', onehot (property inh device ''hvac_mode'') ''off''),
              (''mode_heat'', onehot (property inh device ''hvac_mode'') ''heat''),
              (''mode_cool'', onehot (property inh device ''hvac_mode'') ''cool''),
              (''mode_heat_cool'', onehot (property inh device ''hvac_mode'') ''heat-cool''),
              (''mode_eco'', onehot (property inh device ''hvac_mode'') ''eco''),
              (''state_off'', onehot (property inh device ''hvac_state'') ''off''),
              (''state_cooling'', onehot (property inh device ''hvac_state'') ''cooling''),
              (''state_heating'', onehot (property inh device ''hvac_state'') ''heating'')]\<rparr>"

definition points :: "chain \<Rightarrow> jsval \<Rightarrow> jsval \<Rightarrow> point list" where
  "points inh device room =
     [temperature_point inh device room, humidity_point inh device room,
      state_point inh device room]"

text \<open>The same argument in \<^verbatim>\<open>src/index.js\<close>: two points, the first with three fields.\<close>

definition temperature_point_index :: "chain \<Rightarrow> jsval \<Rightarrow> jsval \<Rightarrow> point" where
  "temperature_point_index inh device room =
     \<lparr>measurement = ''sensor.temperature.reading'',
      tags = [(''device_id'', property inh device ''device_id''), (''room'', room)],
      flds = [(''ambient'', property inh device ''ambient_temperature_f''),
              (''target_high'', property inh device ''target_temperature_high_f''),
              (''target_low'', property inh device ''target_temperature_low_f'')]\<rparr>"

definition points_index :: "chain \<Rightarrow> jsval \<Rightarrow> jsval \<Rightarrow> point list" where
  "points_index inh device room =
     [temperature_point_index inh device room, humidity_point inh device room]"

text \<open>The fields the two variants declare for the temperature measurement.\<close>

datatype field_type = FLOAT | INTEGER | STRING

definition temperature_schema :: "(string \<times> field_type) list" where
  "temperature_schema =
     [(''ambient'', FLOAT), (''target'', FLOAT), (''target_high'', FLOAT),
      (''target_low'', FLOAT)]"

definition temperature_schema_index :: "(string \<times> field_type) list" where
  "temperature_schema_index =
     [(''ambient'', FLOAT), (''target_high'', FLOAT), (''target_low'', FLOAT)]"

subsection \<open>The loop over the thermostats\<close>

text \<open>
  The reads between the head of the loop body and the write:
  \<^verbatim>\<open>data.structures[device.structure_id]\<close>, \<^verbatim>\<open>structure.wheres[device.where_id]\<close> and
  \<^verbatim>\<open>where.name\<close>. Nothing guards them.
\<close>

definition room_of :: "chain \<Rightarrow> jsval \<Rightarrow> jsval \<Rightarrow> exn + jsval" where
  "room_of inh data device =
     andthen (get inh data ''structures'') (\<lambda>structures.
     andthen (get inh device ''structure_id'') (\<lambda>sid.
     andthen (get inh structures (to_str sid)) (\<lambda>structure.
     andthen (get inh structure ''wheres'') (\<lambda>wheres.
     andthen (get inh device ''where_id'') (\<lambda>wid.
     andthen (get inh wheres (to_str wid)) (\<lambda>wh.
     get inh wh ''name''))))))"

definition device_batch ::
  "chain \<Rightarrow> (jsval \<Rightarrow> jsval \<Rightarrow> point list) \<Rightarrow> jsval \<Rightarrow> jsval \<Rightarrow> string
     \<Rightarrow> exn + point list" where
  "device_batch inh pts data thermostats did =
     andthen (get inh thermostats did) (\<lambda>device.
     andthen (room_of inh data device) (\<lambda>room.
     Inr (pts device room)))"

text \<open>
  The \<^verbatim>\<open>for\<close> loop: one call of \<^verbatim>\<open>writePoints\<close> per device; an exception leaves the
  loop, with the batches written so far.
\<close>

fun write_loop ::
  "chain \<Rightarrow> (jsval \<Rightarrow> jsval \<Rightarrow> point list) \<Rightarrow> jsval \<Rightarrow> jsval \<Rightarrow> string list
     \<Rightarrow> point list list \<times> exn option" where
  "write_loop inh pts data thermostats [] = ([], None)"
| "write_loop inh pts data thermostats (did # dids) =
     (case device_batch inh pts data thermostats did of
        Inl e \<Rightarrow> ([], Some e)
      | Inr b \<Rightarrow>
          (case write_loop inh pts data thermostats dids of (bs, r) \<Rightarrow> (b # bs, r)))"

datatype ending = Completed | NoThermostats | UnexpectedResponse | Caught exn

record cycle =
  writes :: "point list list"
  ended :: ending

text \<open>
  The callback of \<^verbatim>\<open>nest().then\<close>, with the \<^verbatim>\<open>catch\<close> that follows it: an exception of
  the callback is logged there.
\<close>

definition on_data :: "chain \<Rightarrow> (jsval \<Rightarrow> jsval \<Rightarrow> point list) \<Rightarrow> jsval \<Rightarrow> cycle" where
  "on_data inh pts data =
     (case andthen (get inh data ''devices'') (\<lambda>devices.
             if truthy devices then get inh devices ''thermostats'' else Inr devices) of
        Inl e \<Rightarrow> \<lparr>writes = [], ended = Caught e\<rparr>
      | Inr thermostats \<Rightarrow>
          (if truthy thermostats then
             (let deviceIds = Object_keys thermostats in
              if length deviceIds = 0 then \<lparr>writes = [], ended = NoThermostats\<rparr>
              else
                (case write_loop inh pts data thermostats deviceIds of
                   (bs, None) \<Rightarrow> \<lparr>writes = bs, ended = Completed\<rparr>
                 | (bs, Some e) \<Rightarrow> \<lparr>writes = bs, ended = Caught e\<rparr>))
           else \<lparr>writes = [], ended = UnexpectedResponse\<rparr>))"

definition callback :: "chain \<Rightarrow> jsval \<Rightarrow> cycle" where
  "callback inh data = on_data inh (points inh) data"

definition callback_index :: "chain \<Rightarrow> jsval \<Rightarrow> cycle" where
  "callback_index inh data = on_data inh (points_index inh) data"

subsection \<open>Notions of the specification\<close>

text \<open>\<^verbatim>\<open>data.devices.thermostats\<close>, read without the guards of the callback.\<close>

definition thermostats_of :: "chain \<Rightarrow> jsval \<Rightarrow> jsval" where
  "thermostats_of inh data = property inh (property inh data ''devices'') ''thermostats''"

text \<open>The device of the \<open>i\<close>-th iteration of the loop.\<close>

definition nth_device :: "chain \<Rightarrow> jsval \<Rightarrow> nat \<Rightarrow> jsval" where
  "nth_device inh data i =
     property inh (thermostats_of inh data) (Object_keys (thermostats_of inh data) ! i)"

text \<open>
  The structure and the location the ids of a device lead to, that is what the reads
  \<^verbatim>\<open>data.structures[device.structure_id]\<close> and \<^verbatim>\<open>structure.wheres[device.where_id]\<close>
  yield, and the name of the location.
\<close>

definition structure_of :: "chain \<Rightarrow> jsval \<Rightarrow> jsval \<Rightarrow> jsval" where
  "structure_of inh data device =
     property inh (property inh data ''structures'')
       (to_str (property inh device ''structure_id''))"

definition where_of :: "chain \<Rightarrow> jsval \<Rightarrow> jsval \<Rightarrow> jsval" where
  "where_of inh data device =
     property inh (property inh (structure_of inh data device) ''wheres'')
       (to_str (property inh device ''where_id''))"

definition room_name :: "chain \<Rightarrow> jsval \<Rightarrow> jsval \<Rightarrow> jsval" where
  "room_name inh data device = property inh (where_of inh data device) ''name''"

text \<open>
  A thermostat does not resolve within the payload when one of the two reads yields
  \<^verbatim>\<open>undefined\<close>; it resolves when it is a value and both reads yield one.
\<close>

definition unresolved :: "chain \<Rightarrow> jsval \<Rightarrow> jsval \<Rightarrow> bool" where
  "unresolved inh data device =
     (structure_of inh data device = Undefined \<or> where_of inh data device = Undefined)"



text \<open>The enumerated modes and operating states, and the one-hot fields that stand for them.\<close>

definition hvac_modes :: "string list" where
  "hvac_modes = [''off'', ''heat'', ''cool'', ''heat-cool'', ''eco'']"

definition hvac_states :: "string list" where
  "hvac_states = [''off'', ''heating'', ''cooling'']"

definition mode_fields :: "string list" where
  "mode_fields = [''mode_off'', ''mode_heat'', ''mode_cool'', ''mode_heat_cool'', ''mode_eco'']"

definition state_fields :: "string list" where
  "state_fields = [''state_off'', ''state_cooling'', ''state_heating'']"

definition field :: "point \<Rightarrow> string \<Rightarrow> jsval option" where
  "field p k = map_of (flds p) k"

text \<open>Those of the named fields of a point that are 1.\<close>

definition ones :: "point \<Rightarrow> string list \<Rightarrow> string list" where
  "ones p names = filter (\<lambda>k. field p k = Some (JNum ''1'')) names"

subsection \<open>What a plain object inherits\<close>

text \<open>
  The properties of \<^verbatim>\<open>Object.prototype\<close>, which every version of the engine has: the
  constructor \<^verbatim>\<open>Object\<close>, the methods, each named as its key, and \<^verbatim>\<open>__proto__\<close>, which
  yields the prototype object itself. This is the whole chain of an object that
  \<^verbatim>\<open>JSON.parse\<close> builds; the samples below read such objects, and the built-in functions
  these reads can reach, only.
\<close>

definition native :: "string \<Rightarrow> jsval" where
  "native n = JBuiltin (Some n) (''function '' @ n @ ''() { [native code] }'')"

definition Object_prototype :: "string \<Rightarrow> jsval" where
  "Object_prototype k =
     (if k = ''constructor'' then native ''Object''
      else if k \<in> set [''toString'', ''toLocaleString'', ''valueOf'', ''hasOwnProperty'',
                        ''isPrototypeOf'', ''propertyIsEnumerable'', ''__defineGetter__'',
                        ''__defineSetter__'', ''__lookupGetter__'', ''__lookupSetter__'']
      then native k
      else if k = ''__proto__'' then JBuiltin None ''[object Object]''
      else Undefined)"

definition object_chain :: chain where
  "object_chain v k = (case v of JObj kvs \<Rightarrow> Object_prototype k | _ \<Rightarrow> Undefined)"

subsection \<open>Sample payloads\<close>

definition sample_device :: jsval where
  "sample_device = JObj
     [(''device_id'', JStr ''t1''), (''name'', JStr ''Hallway (Nest)''),
      (''structure_id'', JStr ''s1''), (''where_id'', JStr ''w1''),
      (''ambient_temperature_f'', JNum ''72''), (''target_temperature_f'', JNum ''70''),
      (''target_temperature_high_f'', JNum ''75''),
      (''target_temperature_low_f'', JNum ''65''),
      (''humidity'', JNum ''40''), (''hvac_mode'', JStr ''heat''),
      (''hvac_state'', JStr ''heating''), (''is_online'', JBool True),
      (''has_fan'', JBool True), (''has_leaf'', JBool False)]"

definition second_device :: jsval where
  "second_device = JObj
     [(''device_id'', JStr ''t2''), (''name'', JStr ''Bedroom (Nest)''),
      (''structure_id'', JStr ''s1''), (''where_id'', JStr ''w2''),
      (''ambient_temperature_f'', JNum ''68''), (''target_temperature_f'', JNum ''66''),
      (''target_temperature_high_f'', JNum ''71''),
      (''target_temperature_low_f'', JNum ''61''),
      (''humidity'', JNum ''45''), (''hvac_mode'', JStr ''cool''),
      (''hvac_state'', JStr ''off''), (''is_online'', JBool True),
      (''has_fan'', JBool False), (''has_leaf'', JBool True)]"

text \<open>A thermostat whose structure is not in the payload.\<close>

definition orphan_device :: jsval where
  "orphan_device = JObj
     [(''device_id'', JStr ''t0''), (''name'', JStr ''Attic''),
      (''structure_id'', JStr ''gone''), (''where_id'', JStr ''w1'')]"

text \<open>A thermostat whose location id is no location of its structure but an inherited name.\<close>

definition stray_device :: jsval where
  "stray_device = JObj
     [(''device_id'', JStr ''t3''), (''name'', JStr ''Cellar''),
      (''structure_id'', JStr ''s1''), (''where_id'', JStr ''constructor'')]"

definition sample_structures :: jsval where
  "sample_structures = JObj
     [(''s1'', JObj [(''wheres'', JObj [(''w1'', JObj [(''name'', JStr ''Hallway'')]),
                                       (''w2'', JObj [(''name'', JStr ''Bedroom'')])])])]"

definition sample_payload :: jsval where
  "sample_payload = JObj
     [(''devices'',
       JObj [(''thermostats'', JObj [(''t1'', sample_device), (''t2'', second_device)])]),
      (''structures'', sample_structures)]"

definition orphan_payload :: jsval where
  "orphan_payload = JObj
     [(''devices'',
       JObj [(''thermostats'',
              JObj [(''t1'', sample_device), (''t0'', orphan_device),
                    (''t2'', second_device)])]),
      (''structures'', sample_structures)]"

definition stray_payload :: jsval where
  "stray_payload = JObj
     [(''devices'', JObj [(''thermostats'', JObj [(''t3'', stray_device)])]),
      (''structures'', sample_structures)]"

text \<open>The temperature point of a batch is the one with this measurement name.\<close>

definition is_temperature :: "point \<Rightarrow> bool" where
  "is_temperature p = (measurement p = ''sensor.temperature.reading'')"

section \<open>Properties of one attempt\<close>

lemmas attempt_defs =
  attempt_def on_response_def on_redirect_def on_end_def resolve_def reject_def

lemmas sample_defs =
  redirect_response_def not_found_response_def rate_limited_response_def
  empty_response_def data_response_def

text \<open>Whether an attempt throws, and how its promise settles, depend on the answer only.\<close>

lemma attempt_settled_any_cache:
  "thrown (attempt c ev) = thrown (attempt c' ev) \<and>
   settled (state_after (attempt c ev)) = settled (state_after (attempt c' ev))"
  by (cases ev) (auto simp: attempt_defs thrown_def state_after_def Let_def
      split: option.splits list.splits body.splits)

lemma retry_signal_attempt:
  assumes "retry_signal ev"
  shows "\<exists>s v. attempt c ev = Inr s \<and> settled s = Some (Resolved v) \<and> \<not> truthy v"
proof -
  from assms obtain s0 v where a0: "attempt initial_config ev = Inr s0"
    and s0: "settled s0 = Some (Resolved v)" and v: "\<not> truthy v"
    by (auto simp: retry_signal_def split: sum.splits option.splits settlement.splits)
  have "thrown (attempt c ev) = None"
    using attempt_settled_any_cache [of c ev initial_config] a0 by (simp add: thrown_def)
  then obtain s where s: "attempt c ev = Inr s"
    by (cases "attempt c ev") (auto simp: thrown_def)
  have "settled s = Some (Resolved v)"
    using attempt_settled_any_cache [of c ev initial_config] a0 s s0
    by (simp add: state_after_def)
  with s v show ?thesis by blast
qed

lemma delivers_attempt:
  assumes "delivers ev v"
  shows "\<exists>s. attempt c ev = Inr s \<and> settled s = Some (Resolved v) \<and> truthy v"
proof -
  from assms obtain s0 where a0: "attempt initial_config ev = Inr s0"
    and s0: "settled s0 = Some (Resolved v)" and v: "truthy v"
    by (auto simp: delivers_def split: sum.splits)
  have "thrown (attempt c ev) = None"
    using attempt_settled_any_cache [of c ev initial_config] a0 by (simp add: thrown_def)
  then obtain s where s: "attempt c ev = Inr s"
    by (cases "attempt c ev") (auto simp: thrown_def)
  have "settled s = Some (Resolved v)"
    using attempt_settled_any_cache [of c ev initial_config] a0 s s0
    by (simp add: state_after_def)
  with s v show ?thesis by blast
qed

text \<open>An attempt whose handlers return leaves the cache with both fields set or both unset.\<close>

lemma attempt_keeps_consistent:
  "consistent c \<Longrightarrow> thrown (attempt c ev) = None
     \<Longrightarrow> consistent (cfg (state_after (attempt c ev)))"
  by (cases ev) (auto simp: attempt_defs thrown_def state_after_def consistent_def Let_def
      split: option.splits list.splits body.splits if_splits)

subsection \<open>The redirect to a root path\<close>

lemma split_not_Nil: "split sep s \<noteq> []"
  by (induction s) (auto split: list.splits)

lemma split_without_sep: "sep \<notin> set s \<Longrightarrow> split sep s = [s]"
  by (induction s) auto

lemma split_at_first_sep: "sep \<notin> set h \<Longrightarrow> split sep (h @ sep # t) = h # split sep t"
  by (induction h) auto

lemma starts_with_append: "starts_with pat (pat @ s)"
  by (induction pat) auto

lemma replace_at_front: "pat \<noteq> [] \<Longrightarrow> replace pat rep (pat @ s) = rep @ s"
  by (cases pat) (auto simp: starts_with_append)

lemma replace_trailing: "c \<notin> set s \<Longrightarrow> replace [c] [] (s @ [c]) = s"
  by (induction s) auto

text \<open>
  For a header \<^verbatim>\<open>https://<host>:<port>/\<close>, with nothing after the slash, the handler
  caches the host and the port, the port as the string of its digits.
\<close>

lemma redirect_to_root:
  assumes "CHR '':'' \<notin> set h" and "CHR '':'' \<notin> set p" and "CHR ''/'' \<notin> set p"
    and "statusCode r = 307" and "location r = Some (''https://'' @ h @ '':'' @ p @ ''/'')"
  shows "cfg (state_after (attempt c (Response r))) = \<lparr>host = JStr h, port = JStr p\<rparr>"
proof -
  have "replace ''https://'' [] (''https://'' @ h @ '':'' @ p @ ''/'') = h @ '':'' @ p @ ''/''"
    using replace_at_front [of "''https://''" "[]" "h @ '':'' @ p @ ''/''"] by simp
  moreover have "split CHR '':'' (h @ '':'' @ p @ ''/'') = [h, p @ ''/'']"
    using assms(1,2) split_at_first_sep [of "CHR '':''" h "p @ ''/''"]
    by (simp add: split_without_sep)
  moreover have "replace ''/'' [] (p @ ''/'') = p"
    using assms(3) replace_trailing [of "CHR ''/''" p] by simp
  ultimately have "on_redirect r \<lparr>cfg = c, settled = None\<rparr>
      = Inr \<lparr>cfg = \<lparr>host = JStr h, port = JStr p\<rparr>, settled = Some (Resolved JNull)\<rparr>"
    using assms(5) by (simp add: on_redirect_def resolve_def)
  then show ?thesis
    using assms(4)
    by (cases "responseBody r")
       (simp_all add: attempt_def on_response_def on_end_def resolve_def state_after_def)
qed

section \<open>Properties of the resolution loop\<close>

lemma outcome_issue [simp]: "outcome (issue rq r) = outcome r"
  by (simp add: issue_def)

lemma requests_issue [simp]: "requests (issue rq r) = rq # requests r"
  by (simp add: issue_def)

lemma final_issue [simp]: "final (issue rq r) = final r"
  by (simp add: issue_def)

lemma nest_retry_step:
  assumes "retry_signal ev" and "n \<le> 10"
  shows "\<exists>c'. nest u p n c (ev # evs)
                = issue (target u p c) (nest JNull JNull (n + 1) c' evs)"
proof -
  from retry_signal_attempt [OF assms(1), of c] obtain s v
    where "attempt c ev = Inr s" "settled s = Some (Resolved v)" "\<not> truthy v" by blast
  with assms(2) show ?thesis by auto
qed

lemma nest_delivers_step:
  assumes "delivers ev v" and "n \<le> 10"
  shows "outcome (nest u p n c (ev # evs)) = Returned v"
proof -
  from delivers_attempt [OF assms(1), of c] obtain s
    where "attempt c ev = Inr s" "settled s = Some (Resolved v)" "truthy v" by blast
  with assms(2) show ?thesis by auto
qed

lemma nest_over_limit:
  "n > 10 \<Longrightarrow> nest u p n c evs
                 = \<lparr>final = c, requests = [], outcome = Failed TooManyRedirects\<rparr>"
  by (cases evs) auto

lemma nest_first_request:
  "m \<le> 10 \<Longrightarrow> \<exists>later. requests (nest u p m c evs) = target u p c # later"
  by (cases evs) (auto split: sum.splits option.splits settlement.splits prod.splits)

text \<open>The data is only ever returned when it is truthy.\<close>

lemma nest_returns_truthy: "outcome (nest u p n c evs) = Returned v \<Longrightarrow> truthy v"
proof (induction evs arbitrary: u p n c)
  case Nil
  then show ?case by (simp split: if_splits)
next
  case (Cons ev evs)
  then show ?case
    by (auto split: if_splits sum.splits option.splits settlement.splits prod.splits)
qed

lemma nest_returns_after_retries:
  "\<forall>e\<in>set pre. retry_signal e \<Longrightarrow> n + length pre \<le> 10 \<Longrightarrow> delivers ev v
     \<Longrightarrow> outcome (nest u p n c (pre @ ev # rest)) = Returned v"
proof (induction pre arbitrary: u p n c)
  case Nil
  then show ?case using nest_delivers_step [of ev v n u p c rest] by simp
next
  case (Cons e pre)
  from Cons.prems have r: "retry_signal e" and n: "n \<le> 10" by auto
  from nest_retry_step [OF r n, of u p c "pre @ ev # rest"] obtain c'
    where "nest u p n c (e # pre @ ev # rest)
             = issue (target u p c) (nest JNull JNull (n + 1) c' (pre @ ev # rest))" by blast
  moreover have "outcome (nest JNull JNull (n + 1) c' (pre @ ev # rest)) = Returned v"
    using Cons.prems by (intro Cons.IH) auto
  ultimately show ?case by simp
qed

lemma nest_gives_up:
  "\<forall>e\<in>set pre. retry_signal e \<Longrightarrow> n \<le> 11 \<Longrightarrow> 11 \<le> n + length pre
     \<Longrightarrow> outcome (nest u p n c (pre @ rest)) = Failed TooManyRedirects \<and>
         length (requests (nest u p n c (pre @ rest))) = 11 - n"
proof (induction pre arbitrary: u p n c)
  case Nil
  then have "n = 11" by simp
  then show ?case by (simp add: nest_over_limit)
next
  case (Cons e pre)
  show ?case
  proof (cases "n = 11")
    case True
    then show ?thesis by (simp add: nest_over_limit)
  next
    case False
    with Cons.prems have r: "retry_signal e" and n: "n \<le> 10" by auto
    from nest_retry_step [OF r n, of u p c "pre @ rest"] obtain c'
      where eq: "nest u p n c (e # pre @ rest)
               = issue (target u p c) (nest JNull JNull (n + 1) c' (pre @ rest))" by blast
    have "outcome (nest JNull JNull (n + 1) c' (pre @ rest)) = Failed TooManyRedirects \<and>
          length (requests (nest JNull JNull (n + 1) c' (pre @ rest))) = 11 - (n + 1)"
      using Cons.prems n by (intro Cons.IH) auto
    with eq n show ?thesis by simp
  qed
qed

section \<open>Claims about the resolution loop and the cache\<close>

text \<open>
  Claim C1. When at most 10 attempts in a row yield a retry signal and the next answer
  delivers a truthy payload, \<^verbatim>\<open>nest()\<close> returns that payload; when more than 10 attempts
  in a row yield a retry signal, it fails with the too-many-redirects error after exactly
  11 requests, whatever the network would have answered afterwards.
\<close>

theorem nest_bounded_retries:
  assumes "\<forall>e\<in>set pre. retry_signal e"
  shows "(length pre \<le> 10 \<and> delivers ev v
            \<longrightarrow> outcome (poll c (pre @ ev # rest)) = Returned v) \<and>
         (10 < length pre
            \<longrightarrow> outcome (poll c (pre @ rest)) = Failed TooManyRedirects \<and>
                length (requests (poll c (pre @ rest))) = 11)"
proof (intro conjI impI)
  assume "length pre \<le> 10 \<and> delivers ev v"
  then show "outcome (poll c (pre @ ev # rest)) = Returned v"
    using nest_returns_after_retries [OF assms, of 0 ev v] by (simp add: poll_def)
next
  assume "10 < length pre"
  then have "11 \<le> 0 + length pre" by simp
  from nest_gives_up [OF assms _ this, of Undefined Undefined c rest]
  show "outcome (poll c (pre @ rest)) = Failed TooManyRedirects"
    by (simp add: poll_def)
next
  assume "10 < length pre"
  then have "11 \<le> 0 + length pre" by simp
  from nest_gives_up [OF assms _ this, of Undefined Undefined c rest]
  show "length (requests (poll c (pre @ rest))) = 11"
    by (simp add: poll_def)
qed

theorem nest_bounded_retries_witness:
  "retry_signal (Response redirect_response) \<and>
   retry_signal (Response not_found_response) \<and>
   retry_signal (Response rate_limited_response) \<and>
   retry_signal (Response empty_response) \<and>
   delivers (Response data_response) (JObj [(''devices'', JObj [])]) \<and>
   outcome (poll initial_config
      ([Response redirect_response, Response not_found_response,
        Response rate_limited_response, Response empty_response]
       @ Response data_response # []))
     = Returned (JObj [(''devices'', JObj [])]) \<and>
   outcome (poll initial_config
      (replicate 11 (Response rate_limited_response) @ [Response data_response]))
     = Failed TooManyRedirects \<and>
   length (requests (poll initial_config
      (replicate 11 (Response rate_limited_response) @ [Response data_response]))) = 11"
  using nest_bounded_retries [of "[Response redirect_response, Response not_found_response,
               Response rate_limited_response, Response empty_response]"
               "Response data_response" "JObj [(''devices'', JObj [])]" initial_config "[]"]
        nest_bounded_retries [of "replicate 11 (Response rate_limited_response)"
               "Response data_response" "JObj [(''devices'', JObj [])]" initial_config
               "[Response data_response]"]
  by (simp add: retry_signal_def delivers_def attempt_defs sample_defs initial_config_def)

text \<open>
  Claim C2, at the header \<^verbatim>\<open>https://alt-host:444/some/path\<close>: the handler removes the
  scheme and the first slash after the port, nothing more, and caches the host
  \<^verbatim>\<open>alt-host\<close> with the port \<^verbatim>\<open>444some/path\<close>.
\<close>

theorem redirect_with_path_port:
  "cfg (state_after (attempt initial_config
      (Response \<lparr>statusCode = 307, location = Some ''https://alt-host:444/some/path'',
                  responseBody = NoBody\<rparr>)))
     = \<lparr>host = JStr ''alt-host'', port = JStr ''444some/path''\<rparr>"
  by (simp add: attempt_defs state_after_def initial_config_def)

text \<open>
  Claim C3. A 404 response clears both fields of the cache; when a retry follows (the
  counter was below 10 and the end of the response raised nothing), the request of that
  retry goes to the default host and the default port.
\<close>

theorem not_found_resets_cache:
  assumes "statusCode r = 404"
  shows "cfg (state_after (attempt c (Response r))) = \<lparr>host = JNull, port = JNull\<rparr> \<and>
         (n < 10 \<and> responseBody r \<noteq> Unparsable \<longrightarrow>
            (\<exists>later. requests (nest u p n c (Response r # evs))
               = target u p c # (DEFAULT_NEST_URL, DEFAULT_NEST_PORT) # later))"
proof (intro conjI impI)
  show "cfg (state_after (attempt c (Response r))) = \<lparr>host = JNull, port = JNull\<rparr>"
    using assms by (auto simp: attempt_defs state_after_def Let_def split: body.splits)
next
  assume h: "n < 10 \<and> responseBody r \<noteq> Unparsable"
  have step: "nest u p n c (Response r # evs)
      = issue (target u p c) (nest JNull JNull (n + 1) \<lparr>host = JNull, port = JNull\<rparr> evs)"
    using assms h by (cases "responseBody r") (simp_all add: attempt_defs)
  from h have "n + 1 \<le> 10" by simp
  from nest_first_request [OF this] obtain later
    where "requests (nest JNull JNull (n + 1) \<lparr>host = JNull, port = JNull\<rparr> evs)
             = target JNull JNull \<lparr>host = JNull, port = JNull\<rparr> # later" by blast
  moreover have "target JNull JNull \<lparr>host = JNull, port = JNull\<rparr>
      = (DEFAULT_NEST_URL, DEFAULT_NEST_PORT)"
    by (simp add: target_def js_or_def)
  ultimately show "\<exists>later. requests (nest u p n c (Response r # evs))
               = target u p c # (DEFAULT_NEST_URL, DEFAULT_NEST_PORT) # later"
    using step by simp
qed

theorem not_found_resets_cache_witness:
  "statusCode not_found_response = 404 \<and> (0::nat) < 10 \<and>
   responseBody not_found_response \<noteq> Unparsable \<and>
   cfg (state_after (attempt \<lparr>host = JStr ''alt-host'', port = JStr ''444''\<rparr>
         (Response not_found_response))) = \<lparr>host = JNull, port = JNull\<rparr> \<and>
   (\<exists>later. requests (nest Undefined Undefined 0
                        \<lparr>host = JStr ''alt-host'', port = JStr ''444''\<rparr>
                        (Response not_found_response # [Response data_response]))
      = (JStr ''alt-host'', JStr ''444'') # (DEFAULT_NEST_URL, DEFAULT_NEST_PORT) # later)"
  using not_found_resets_cache [of not_found_response
      "\<lparr>host = JStr ''alt-host'', port = JStr ''444''\<rparr>" 0 Undefined Undefined
      "[Response data_response]"]
  by (simp add: sample_defs target_def js_or_def)

text \<open>
  Claim C5. A 429 response leaves both fields of the cache as they were, and the promise
  of the attempt is resolved with \<^verbatim>\<open>null\<close>, the retry signal.
\<close>

theorem rate_limit_keeps_cache:
  assumes "statusCode r = 429"
  shows "cfg (state_after (attempt c (Response r))) = c \<and>
         settled (state_after (attempt c (Response r))) = Some (Resolved JNull)"
  using assms
  by (auto simp: attempt_defs state_after_def Let_def split: body.splits)

theorem rate_limit_keeps_cache_witness:
  "statusCode rate_limited_response = 429 \<and>
   cfg (state_after (attempt \<lparr>host = JStr ''alt-host'', port = JStr ''444''\<rparr>
         (Response rate_limited_response)))
     = \<lparr>host = JStr ''alt-host'', port = JStr ''444''\<rparr> \<and>
   settled (state_after (attempt \<lparr>host = JStr ''alt-host'', port = JStr ''444''\<rparr>
         (Response rate_limited_response))) = Some (Resolved JNull)"
  using rate_limit_keeps_cache [of rate_limited_response
      "\<lparr>host = JStr ''alt-host'', port = JStr ''444''\<rparr>"]
  by (simp add: sample_defs)

text \<open>
  Claim C7, at a redirect whose header names no port (\<^verbatim>\<open>https://alt-host/\<close>): the host
  is assigned, then the read of the missing port throws, and the cache is left with the
  host set and the port unset.
\<close>

theorem redirect_without_port_half_set:
  "thrown (attempt initial_config
      (Response \<lparr>statusCode = 307, location = Some ''https://alt-host/'',
                  responseBody = NoBody\<rparr>)) = Some TypeError \<and>
   cfg (state_after (attempt initial_config
      (Response \<lparr>statusCode = 307, location = Some ''https://alt-host/'',
                  responseBody = NoBody\<rparr>)))
     = \<lparr>host = JStr ''alt-host/'', port = JNull\<rparr> \<and>
   \<not> consistent (cfg (state_after (attempt initial_config
      (Response \<lparr>statusCode = 307, location = Some ''https://alt-host/'',
                  responseBody = NoBody\<rparr>))))"
  by (simp add: attempt_defs state_after_def thrown_def initial_config_def consistent_def)

text \<open>
  Claim C8. A response whose status is none of 307, 404 and 429 and whose body is empty
  is a retry: below the bound the next request is issued, to the cached host when the
  cache holds one and to the default host otherwise, and likewise for the port; the call
  is \<^verbatim>\<open>nest(null, null, redirectCount + 1)\<close> on the unchanged cache; the empty payload is
  not returned.
\<close>

theorem empty_body_retries:
  assumes "statusCode r \<noteq> 307" and "statusCode r \<noteq> 404" and "statusCode r \<noteq> 429"
    and "responseBody r = NoBody"
  shows "(n < 10 \<longrightarrow>
            (\<exists>later. requests (nest u p n c (Response r # evs))
               = target u p c
                 # (if truthy (host c) then host c else DEFAULT_NEST_URL,
                    if truthy (port c) then port c else DEFAULT_NEST_PORT)
                 # later)) \<and>
         (n \<le> 10 \<longrightarrow>
            nest u p n c (Response r # evs)
              = issue (target u p c) (nest JNull JNull (n + 1) c evs)) \<and>
         outcome (nest u p n c (Response r # evs)) \<noteq> Returned (JStr [])"
proof (intro conjI impI)
  assume n: "n < 10"
  have step: "nest u p n c (Response r # evs)
           = issue (target u p c) (nest JNull JNull (n + 1) c evs)"
    using assms n by (simp add: attempt_defs)
  from n have "n + 1 \<le> 10" by simp
  from nest_first_request [OF this] obtain later
    where "requests (nest JNull JNull (n + 1) c evs) = target JNull JNull c # later"
    by blast
  moreover have "target JNull JNull c
      = (if truthy (host c) then host c else DEFAULT_NEST_URL,
         if truthy (port c) then port c else DEFAULT_NEST_PORT)"
    by (simp add: target_def js_or_def)
  ultimately show "\<exists>later. requests (nest u p n c (Response r # evs))
               = target u p c
                 # (if truthy (host c) then host c else DEFAULT_NEST_URL,
                    if truthy (port c) then port c else DEFAULT_NEST_PORT)
                 # later"
    using step by simp
next
  assume "n \<le> 10"
  then show "nest u p n c (Response r # evs)
           = issue (target u p c) (nest JNull JNull (n + 1) c evs)"
    using assms by (simp add: attempt_defs)
next
  show "outcome (nest u p n c (Response r # evs)) \<noteq> Returned (JStr [])"
    using nest_returns_truthy [of u p n c "Response r # evs" "JStr []"] by auto
qed

theorem empty_body_retries_witness:
  "statusCode empty_response \<noteq> 307 \<and> statusCode empty_response \<noteq> 404 \<and>
   statusCode empty_response \<noteq> 429 \<and> responseBody empty_response = NoBody \<and>
   (0::nat) < 10 \<and>
   (\<exists>later. requests (nest Undefined Undefined 0
                        \<lparr>host = JStr ''alt-host'', port = JStr ''444''\<rparr>
                        (Response empty_response # [Response data_response]))
      = (JStr ''alt-host'', JStr ''444'') # (JStr ''alt-host'', JStr ''444'') # later) \<and>
   requests (nest Undefined Undefined 0 \<lparr>host = JStr ''alt-host'', port = JStr ''444''\<rparr>
               (Response empty_response # [Response data_response]))
     = [(JStr ''alt-host'', JStr ''444''), (JStr ''alt-host'', JStr ''444'')] \<and>
   (\<exists>later. requests (nest Undefined Undefined 0 initial_config
                        (Response empty_response # [Response data_response]))
      = (DEFAULT_NEST_URL, DEFAULT_NEST_PORT) # (DEFAULT_NEST_URL, DEFAULT_NEST_PORT)
        # later) \<and>
   outcome (nest Undefined Undefined 0 \<lparr>host = JStr ''alt-host'', port = JStr ''444''\<rparr>
              (Response empty_response # [Response data_response]))
     = Returned (JObj [(''devices'', JObj [])])"
  using empty_body_retries [of empty_response 0 Undefined Undefined
      "\<lparr>host = JStr ''alt-host'', port = JStr ''444''\<rparr>" "[Response data_response]"]
    empty_body_retries [of empty_response 0 Undefined Undefined initial_config
      "[Response data_response]"]
  by (simp add: sample_defs target_def js_or_def initial_config_def attempt_defs)

text \<open>
  Claim C10, as the code has it. For a 404 or 429 response the promise of the attempt is
  resolved with \<^verbatim>\<open>null\<close> before the body is read, whatever the body is, so the body is
  never the data of the attempt; and when the body is empty or is valid JSON the attempt is
  a retry signal.
\<close>

theorem settled_before_body_is_read:
  assumes "statusCode r = 404 \<or> statusCode r = 429"
  shows "settled (state_after (attempt c (Response r))) = Some (Resolved JNull) \<and>
         (responseBody r \<noteq> Unparsable \<longrightarrow> retry_signal (Response r))"
  using assms
  by (auto simp: retry_signal_def attempt_defs state_after_def Let_def split: body.splits)

theorem settled_before_body_is_read_witness:
  "(statusCode not_found_response = 404 \<or> statusCode not_found_response = 429) \<and>
   responseBody not_found_response \<noteq> Unparsable \<and>
   settled (state_after (attempt initial_config (Response not_found_response)))
     = Some (Resolved JNull) \<and>
   retry_signal (Response not_found_response)"
  using settled_before_body_is_read [of not_found_response initial_config]
  by (simp add: sample_defs)

text \<open>
  The body of such a response is parsed all the same when the response ends: with a body
  that is not JSON the parse throws, the attempt is no retry signal and the run stops
  there instead of fetching the data of the next answer.
\<close>

theorem unparsable_body_counterexample:
  "\<not> retry_signal
       (Response \<lparr>statusCode = 404, location = None, responseBody = Unparsable\<rparr>) \<and>
   thrown (attempt initial_config
      (Response \<lparr>statusCode = 404, location = None, responseBody = Unparsable\<rparr>))
     = Some SyntaxError \<and>
   outcome (poll initial_config
      [Response \<lparr>statusCode = 404, location = None, responseBody = Unparsable\<rparr>,
       Response data_response]) = Crashed SyntaxError"
  by (simp add: retry_signal_def attempt_defs thrown_def poll_def)

section \<open>Properties of the polling callback\<close>

lemmas payload_defs =
  sample_payload_def orphan_payload_def stray_payload_def sample_device_def
  second_device_def orphan_device_def stray_device_def sample_structures_def

lemmas read_defs =
  property_def own_def get_def andthen_def Object_keys_def thermostats_of_def
  object_chain_def Object_prototype_def native_def

lemmas lookup_defs =
  structure_of_def where_of_def room_name_def nth_device_def


lemma property_nullish [simp]:
  "property inh Undefined k = Undefined" "property inh JNull k = Undefined"
  by (simp_all add: property_def)




lemma room_of_Inr:
  "room_of inh data device = Inr room \<Longrightarrow> room = room_name inh data device"
  by (auto simp: structure_of_def where_of_def room_name_def room_of_def andthen_def get_def
      split: if_splits)

lemma device_batch_Inr:
  "device_batch inh pts data th did = Inr b
     \<Longrightarrow> b = pts (property inh th did) (room_name inh data (property inh th did))"
  by (auto simp: device_batch_def andthen_def get_def split: if_splits sum.splits
      dest: room_of_Inr)



text \<open>The \<open>i\<close>-th batch of the loop is the batch of the \<open>i\<close>-th device id.\<close>

lemma write_loop_nth:
  "i < length (fst (write_loop inh pts data th dids))
     \<Longrightarrow> i < length dids \<and>
         fst (write_loop inh pts data th dids) ! i
           = pts (property inh th (dids ! i))
               (room_name inh data (property inh th (dids ! i)))"
proof (induction dids arbitrary: i)
  case Nil
  then show ?case by simp
next
  case (Cons did dids)
  show ?case
  proof (cases "device_batch inh pts data th did")
    case (Inl e)
    with Cons.prems show ?thesis by simp
  next
    case (Inr b)
    obtain bs r where w: "write_loop inh pts data th dids = (bs, r)"
      by (cases "write_loop inh pts data th dids")
    show ?thesis
    proof (cases i)
      case 0
      with Inr w show ?thesis by (simp add: device_batch_Inr)
    next
      case (Suc j)
      with Cons.prems Inr w have "j < length (fst (write_loop inh pts data th dids))"
        by simp
      from Cons.IH [OF this] Suc Inr w show ?thesis by simp
    qed
  qed
qed




lemma on_data_writes:
  "writes (on_data inh pts data) = [] \<or>
   writes (on_data inh pts data)
     = fst (write_loop inh pts data (thermostats_of inh data)
             (Object_keys (thermostats_of inh data)))"
  by (auto simp: on_data_def andthen_def get_def thermostats_of_def Let_def
      split: if_splits sum.splits prod.splits option.splits)

text \<open>The \<open>i\<close>-th batch of a cycle is the batch of the device of the \<open>i\<close>-th iteration.\<close>

lemma on_data_nth:
  assumes "i < length (writes (on_data inh pts data))"
  shows "i < length (Object_keys (thermostats_of inh data)) \<and>
         writes (on_data inh pts data) ! i
           = pts (nth_device inh data i) (room_name inh data (nth_device inh data i))"
proof -
  from assms on_data_writes [of inh pts data]
  have w: "writes (on_data inh pts data)
     = fst (write_loop inh pts data (thermostats_of inh data)
             (Object_keys (thermostats_of inh data)))"
    by auto
  with assms have "i < length (fst (write_loop inh pts data (thermostats_of inh data)
             (Object_keys (thermostats_of inh data))))" by simp
  from write_loop_nth [OF this] w show ?thesis by (simp add: nth_device_def)
qed

lemma field_state_point:
  "field (state_point inh device room) ''fan'' = Some (flag (property inh device ''has_fan''))"
  "field (state_point inh device room) ''online''
     = Some (flag (property inh device ''is_online''))"
  "field (state_point inh device room) ''mode_off''
     = Some (onehot (property inh device ''hvac_mode'') ''off'')"
  "field (state_point inh device room) ''mode_heat''
     = Some (onehot (property inh device ''hvac_mode'') ''heat'')"
  "field (state_point inh device room) ''mode_cool''
     = Some (onehot (property inh device ''hvac_mode'') ''cool'')"
  "field (state_point inh device room) ''mode_heat_cool''
     = Some (onehot (property inh device ''hvac_mode'') ''heat-cool'')"
  "field (state_point inh device room) ''mode_eco''
     = Some (onehot (property inh device ''hvac_mode'') ''eco'')"
  "field (state_point inh device room) ''state_off''
     = Some (onehot (property inh device ''hvac_state'') ''off'')"
  "field (state_point inh device room) ''state_cooling''
     = Some (onehot (property inh device ''hvac_state'') ''cooling'')"
  "field (state_point inh device room) ''state_heating''
     = Some (onehot (property inh device ''hvac_state'') ''heating'')"
  by (simp_all add: field_def state_point_def)

lemma field_temperature_point:
  "map fst (flds (temperature_point inh device room))
     = [''ambient'', ''target_high'', ''target_low'', ''target'']"
  "field (temperature_point inh device room) ''ambient''
     = Some (property inh device ''ambient_temperature_f'')"
  "field (temperature_point inh device room) ''target''
     = Some (property inh device ''target_temperature_f'')"
  "field (temperature_point inh device room) ''target_high''
     = Some (property inh device ''target_temperature_high_f'')"
  "field (temperature_point inh device room) ''target_low''
     = Some (property inh device ''target_temperature_low_f'')"
  by (simp_all add: field_def temperature_point_def)

lemma field_temperature_point_index:
  "map fst (flds (temperature_point_index inh device room))
     = [''ambient'', ''target_high'', ''target_low'']"
  "field (temperature_point_index inh device room) ''ambient''
     = Some (property inh device ''ambient_temperature_f'')"
  "field (temperature_point_index inh device room) ''target'' = None"
  "field (temperature_point_index inh device room) ''target_high''
     = Some (property inh device ''target_temperature_high_f'')"
  "field (temperature_point_index inh device room) ''target_low''
     = Some (property inh device ''target_temperature_low_f'')"
  by (simp_all add: field_def temperature_point_index_def)

lemma filter_temperature:
  "filter is_temperature (points inh device room) = [temperature_point inh device room]"
  "filter is_temperature (points_index inh device room)
     = [temperature_point_index inh device room]"
  by (simp_all add: points_def points_index_def is_temperature_def temperature_point_def
      temperature_point_index_def humidity_point_def state_point_def)

text \<open>The samples, read along the chain of plain objects.\<close>

lemma sample_thermostats:
  "thermostats_of object_chain sample_payload
     = JObj [(''t1'', sample_device), (''t2'', second_device)]"
  by (simp add: payload_defs read_defs)

lemma second_iteration: "nth_device object_chain sample_payload (Suc 0) = second_device"
  by (simp add: nth_device_def sample_thermostats Object_keys_def property_def own_def)




lemma callback_sample:
  "writes (callback object_chain sample_payload)
     = [points object_chain sample_device (JStr ''Hallway''),
        points object_chain second_device (JStr ''Bedroom'')]"
  "writes (callback_index object_chain sample_payload)
     = [points_index object_chain sample_device (JStr ''Hallway''),
        points_index object_chain second_device (JStr ''Bedroom'')]"
  by (simp_all add: payload_defs read_defs callback_def callback_index_def on_data_def
      device_batch_def room_of_def)

text \<open>
  A location id that names an inherited property is found on the chain: the device is
  written, with the name of the built-in function as its room.
\<close>

lemma inherited_where_is_written:
  "\<not> unresolved object_chain stray_payload stray_device"
  "writes (callback object_chain stray_payload)
     = [points object_chain stray_device (JStr ''Object'')]"
  "ended (callback object_chain stray_payload) = Completed"
  by (simp_all add: payload_defs read_defs lookup_defs unresolved_def callback_def on_data_def
      device_batch_def room_of_def)

section \<open>Claims about the polling callback\<close>




text \<open>
  Claim C6. For a device with mode \<^verbatim>\<open>heat\<close>, state \<^verbatim>\<open>heating\<close>, a fan and online, the
  device-state point has \<^verbatim>\<open>mode_heat\<close>, \<^verbatim>\<open>state_heating\<close>, \<^verbatim>\<open>fan\<close> and \<^verbatim>\<open>online\<close> at 1
  and the other mode and state fields at 0; for any device whose mode and state are among
  the enumerated ones, exactly one mode field and exactly one state field are 1. The point
  is one of those written for the device.
\<close>

theorem state_point_one_hot:
  "(property inh device ''hvac_mode'' = JStr ''heat'' \<and>
    property inh device ''hvac_state'' = JStr ''heating'' \<and>
    property inh device ''has_fan'' = JBool True \<and>
    property inh device ''is_online'' = JBool True
      \<longrightarrow> field (state_point inh device room) ''mode_heat'' = Some (JNum ''1'') \<and>
          field (state_point inh device room) ''mode_off'' = Some (JNum ''0'') \<and>
          field (state_point inh device room) ''mode_cool'' = Some (JNum ''0'') \<and>
          field (state_point inh device room) ''mode_heat_cool'' = Some (JNum ''0'') \<and>
          field (state_point inh device room) ''mode_eco'' = Some (JNum ''0'') \<and>
          field (state_point inh device room) ''state_heating'' = Some (JNum ''1'') \<and>
          field (state_point inh device room) ''state_off'' = Some (JNum ''0'') \<and>
          field (state_point inh device room) ''state_cooling'' = Some (JNum ''0'') \<and>
          field (state_point inh device room) ''fan'' = Some (JNum ''1'') \<and>
          field (state_point inh device room) ''online'' = Some (JNum ''1'')) \<and>
   ((\<exists>m\<in>set hvac_modes. property inh device ''hvac_mode'' = JStr m) \<and>
    (\<exists>s\<in>set hvac_states. property inh device ''hvac_state'' = JStr s)
      \<longrightarrow> length (ones (state_point inh device room) mode_fields) = 1 \<and>
          length (ones (state_point inh device room) state_fields) = 1) \<and>
   state_point inh device room \<in> set (points inh device room)"
proof (intro conjI impI)
  assume "(\<exists>m\<in>set hvac_modes. property inh device ''hvac_mode'' = JStr m) \<and>
    (\<exists>s\<in>set hvac_states. property inh device ''hvac_state'' = JStr s)"
  then obtain m s where m: "m \<in> set hvac_modes" "property inh device ''hvac_mode'' = JStr m"
    and s: "s \<in> set hvac_states" "property inh device ''hvac_state'' = JStr s" by blast
  from m show "length (ones (state_point inh device room) mode_fields) = 1"
    by (auto simp: hvac_modes_def ones_def mode_fields_def field_state_point onehot_def)
  from s show "length (ones (state_point inh device room) state_fields) = 1"
    by (auto simp: hvac_states_def ones_def state_fields_def field_state_point onehot_def)
qed (simp_all add: field_state_point onehot_def flag_def points_def)

theorem state_point_one_hot_witness:
  "property object_chain sample_device ''hvac_mode'' = JStr ''heat'' \<and>
   property object_chain sample_device ''hvac_state'' = JStr ''heating'' \<and>
   property object_chain sample_device ''has_fan'' = JBool True \<and>
   property object_chain sample_device ''is_online'' = JBool True \<and>
   (\<exists>m\<in>set hvac_modes. property object_chain sample_device ''hvac_mode'' = JStr m) \<and>
   (\<exists>s\<in>set hvac_states. property object_chain sample_device ''hvac_state'' = JStr s) \<and>
   field (state_point object_chain sample_device (JStr ''Hallway'')) ''mode_heat''
     = Some (JNum ''1'') \<and>
   field (state_point object_chain sample_device (JStr ''Hallway'')) ''mode_off''
     = Some (JNum ''0'') \<and>
   field (state_point object_chain sample_device (JStr ''Hallway'')) ''state_heating''
     = Some (JNum ''1'') \<and>
   length (ones (state_point object_chain sample_device (JStr ''Hallway'')) mode_fields) = 1 \<and>
   length (ones (state_point object_chain sample_device (JStr ''Hallway'')) state_fields) = 1"
proof -
  have p: "property object_chain sample_device ''hvac_mode'' = JStr ''heat''"
    "property object_chain sample_device ''hvac_state'' = JStr ''heating''"
    "property object_chain sample_device ''has_fan'' = JBool True"
    "property object_chain sample_device ''is_online'' = JBool True"
    by (simp_all add: property_def own_def sample_device_def)
  have e: "(\<exists>m\<in>set hvac_modes. property object_chain sample_device ''hvac_mode'' = JStr m)"
    "(\<exists>s\<in>set hvac_states. property object_chain sample_device ''hvac_state'' = JStr s)"
    by (simp_all add: p hvac_modes_def hvac_states_def)
  from state_point_one_hot [of object_chain sample_device "JStr ''Hallway''"] p e
  show ?thesis by simp
qed

text \<open>
  Claim C9, as the code has it. In the full variant the \<open>i\<close>-th batch written in a cycle
  holds one temperature point, whose fields are exactly \<^verbatim>\<open>ambient\<close>, \<^verbatim>\<open>target_high\<close>,
  \<^verbatim>\<open>target_low\<close> and \<^verbatim>\<open>target\<close>, read from the \<^verbatim>\<open>ambient_temperature_f\<close>,
  \<^verbatim>\<open>target_temperature_high_f\<close>, \<^verbatim>\<open>target_temperature_low_f\<close> and
  \<^verbatim>\<open>target_temperature_f\<close> of the device of the \<open>i\<close>-th iteration; in \<^verbatim>\<open>src/index.js\<close>
  the fields are the first three of these and there is no \<^verbatim>\<open>target\<close>. Each variant
  declares its fields as floats.
\<close>

theorem temperature_fields:
  "(i < length (writes (callback inh data)) \<longrightarrow>
      i < length (Object_keys (thermostats_of inh data)) \<and>
      map flds (filter is_temperature (writes (callback inh data) ! i))
        = [[(''ambient'', property inh (nth_device inh data i) ''ambient_temperature_f''),
            (''target_high'',
               property inh (nth_device inh data i) ''target_temperature_high_f''),
            (''target_low'',
               property inh (nth_device inh data i) ''target_temperature_low_f''),
            (''target'', property inh (nth_device inh data i) ''target_temperature_f'')]]) \<and>
   (i < length (writes (callback_index inh data)) \<longrightarrow>
      i < length (Object_keys (thermostats_of inh data)) \<and>
      map flds (filter is_temperature (writes (callback_index inh data) ! i))
        = [[(''ambient'', property inh (nth_device inh data i) ''ambient_temperature_f''),
            (''target_high'',
               property inh (nth_device inh data i) ''target_temperature_high_f''),
            (''target_low'',
               property inh (nth_device inh data i) ''target_temperature_low_f'')]]) \<and>
   set (map fst temperature_schema) = {''ambient'', ''target'', ''target_high'', ''target_low''} \<and>
   set (map snd temperature_schema) = {FLOAT} \<and>
   set (map fst temperature_schema_index) = {''ambient'', ''target_high'', ''target_low''} \<and>
   set (map snd temperature_schema_index) = {FLOAT}"
proof (intro conjI impI)
  assume "i < length (writes (callback inh data))"
  then have i: "i < length (writes (on_data inh (points inh) data))"
    by (simp add: callback_def)
  from on_data_nth [OF i]
  show "i < length (Object_keys (thermostats_of inh data))" by simp
  from on_data_nth [OF i]
  show "map flds (filter is_temperature (writes (callback inh data) ! i))
        = [[(''ambient'', property inh (nth_device inh data i) ''ambient_temperature_f''),
            (''target_high'',
               property inh (nth_device inh data i) ''target_temperature_high_f''),
            (''target_low'',
               property inh (nth_device inh data i) ''target_temperature_low_f''),
            (''target'', property inh (nth_device inh data i) ''target_temperature_f'')]]"
    by (simp add: callback_def filter_temperature temperature_point_def)
next
  assume "i < length (writes (callback_index inh data))"
  then have i: "i < length (writes (on_data inh (points_index inh) data))"
    by (simp add: callback_index_def)
  from on_data_nth [OF i]
  show "i < length (Object_keys (thermostats_of inh data))" by simp
  from on_data_nth [OF i]
  show "map flds (filter is_temperature (writes (callback_index inh data) ! i))
        = [[(''ambient'', property inh (nth_device inh data i) ''ambient_temperature_f''),
            (''target_high'',
               property inh (nth_device inh data i) ''target_temperature_high_f''),
            (''target_low'',
               property inh (nth_device inh data i) ''target_temperature_low_f'')]]"
    by (simp add: callback_index_def filter_temperature temperature_point_index_def)
qed (auto simp: temperature_schema_def temperature_schema_index_def)

theorem temperature_fields_witness:
  "(1::nat) < length (writes (callback object_chain sample_payload)) \<and>
   map flds (filter is_temperature (writes (callback object_chain sample_payload) ! 1))
     = [[(''ambient'', JNum ''68''), (''target_high'', JNum ''71''),
         (''target_low'', JNum ''61''), (''target'', JNum ''66'')]] \<and>
   (1::nat) < length (writes (callback_index object_chain sample_payload)) \<and>
   map flds (filter is_temperature (writes (callback_index object_chain sample_payload) ! 1))
     = [[(''ambient'', JNum ''68''), (''target_high'', JNum ''71''),
         (''target_low'', JNum ''61'')]]"
proof -
  have len: "Suc 0 < length (writes (callback object_chain sample_payload))"
    "Suc 0 < length (writes (callback_index object_chain sample_payload))"
    by (simp_all add: callback_sample)
  have vals:
    "property object_chain second_device ''ambient_temperature_f'' = JNum ''68''"
    "property object_chain second_device ''target_temperature_f'' = JNum ''66''"
    "property object_chain second_device ''target_temperature_high_f'' = JNum ''71''"
    "property object_chain second_device ''target_temperature_low_f'' = JNum ''61''"
    by (simp_all add: property_def own_def second_device_def)
  from temperature_fields [of "Suc 0" object_chain sample_payload] len
  show ?thesis by (simp add: second_iteration vals)
qed

text \<open>
  The cycle of \<^verbatim>\<open>src/index.js\<close> on the sample payload: each temperature point carries
  three fields, none of them \<^verbatim>\<open>target\<close>.
\<close>

theorem index_temperature_counterexample:
  "writes (callback_index object_chain sample_payload) =
     [[\<lparr>measurement = ''sensor.temperature.reading'',
        tags = [(''device_id'', JStr ''t1''), (''room'', JStr ''Hallway'')],
        flds = [(''ambient'', JNum ''72''), (''target_high'', JNum ''75''),
                (''target_low'', JNum ''65'')]\<rparr>,
       \<lparr>measurement = ''sensor.humidity.reading'',
        tags = [(''device_id'', JStr ''t1''), (''room'', JStr ''Hallway'')],
        flds = [(''humidity'', JNum ''40'')]\<rparr>],
      [\<lparr>measurement = ''sensor.temperature.reading'',
        tags = [(''device_id'', JStr ''t2''), (''room'', JStr ''Bedroom'')],
        flds = [(''ambient'', JNum ''68''), (''target_high'', JNum ''71''),
                (''target_low'', JNum ''61'')]\<rparr>,
       \<lparr>measurement = ''sensor.humidity.reading'',
        tags = [(''device_id'', JStr ''t2''), (''room'', JStr ''Bedroom'')],
        flds = [(''humidity'', JNum ''45'')]\<rparr>]]"
  by (simp add: payload_defs read_defs callback_index_def on_data_def device_batch_def
      room_of_def points_index_def temperature_point_index_def humidity_point_def)

end
